theory Spec2Isabelle
  imports Complex_Main
begin

section \<open>Data model (types.ts)\<close>

text \<open>
  JavaScript numbers are modelled as \<^typ>\<open>real\<close>, without NaN and infinity. In the
  drag branch every arithmetic operation is rounded as an IEEE 754 double is (see
  there); elsewhere arithmetic is exact. Where the source starts a minimum or maximum
  at \<open>Infinity\<close> the accumulator is an option whose \<open>None\<close> is that initial value.
  \<open>===\<close> on arrays and objects is modelled as equality of their values.
\<close>

record Point =
  px :: real
  py :: real

record Rect =
  rx :: real
  ry :: real
  rwidth :: real
  rheight :: real

datatype ElementType = Image | Video | Path | Shape | Text | Arrow | Line | Group | Frame

text \<open>
  \<open>Element\<close> is a union tagged by \<open>type\<close>; every variant extends \<open>CanvasElementBase\<close>.
  The record carries the base fields and the geometry of the variants: \<open>width\<close> and
  \<open>height\<close> are read for image, video, shape, text, group and frame, \<open>points\<close> for
  path, arrow and line. Optional fields are options with \<open>None\<close> for \<open>undefined\<close>.
  The presentational fields (href, colours, font, stroke) are read by none of the
  functions below and are left out.
\<close>

record Element =
  el_id :: string
  el_type :: ElementType
  el_x :: real
  el_y :: real
  el_width :: real
  el_height :: real
  el_points :: "Point list"
  el_rotation :: "real option"
  el_isLocked :: "bool option"
  el_isVisible :: "bool option"
  el_parentId :: "string option"
  el_name :: "string option"

record Board =
  b_id :: string
  b_name :: string
  b_elements :: "Element list"
  b_history :: "Element list list"
  b_historyIndex :: nat
  b_panOffset :: Point
  b_zoom :: real
  b_canvasBackgroundColor :: string

record App =
  boards :: "Board list"
  activeBoardId :: string

section \<open>Scene store: history (App.tsx)\<close>

text \<open>
  Array reads and writes by index. A read out of range yields \<open>undefined\<close> and a write
  beyond the end leaves holes; neither is a value of \<open>Element[][]\<close>, so both are
  \<open>None\<close> here. A write at index \<open>length\<close> appends.
\<close>

definition js_read :: "'a list \<Rightarrow> nat \<Rightarrow> 'a option" where
  "js_read xs i = (if i < length xs then Some (xs ! i) else None)"

definition js_write :: "'a list \<Rightarrow> nat \<Rightarrow> 'a \<Rightarrow> 'a list option" where
  "js_write xs i v =
     (if i < length xs then Some (xs[i := v])
      else if i = length xs then Some (xs @ [v])
      else None)"

definition createNewBoard :: "string \<Rightarrow> string \<Rightarrow> Board" where
  "createNewBoard newId nm =
     \<lparr> b_id = newId, b_name = nm, b_elements = [], b_history = [[]], b_historyIndex = 0,
       b_panOffset = \<lparr> px = 0, py = 0 \<rparr>, b_zoom = 1,
       b_canvasBackgroundColor = ''#111827'' \<rparr>"

text \<open>
  \<open>updateBoard\<close> is what the callback of \<open>prevBoards.map\<close> in \<open>updateActiveBoard\<close>
  does to the board whose id is the active one; \<open>updateActiveBoard\<close> maps it over the
  boards. The calls of \<open>setElements\<close>, \<open>setPanOffset\<close> and \<open>setZoom\<close> there refresh
  the component's mirrors of the board and do not touch the board record.
\<close>

definition updateBoard :: "(Board \<Rightarrow> Board option) \<Rightarrow> bool \<Rightarrow> Board \<Rightarrow> Board option" where
  "updateBoard updater commit board =
     (case updater board of
        None \<Rightarrow> None
      | Some updatedBoard \<Rightarrow>
          if commit then
            (let newHistory = take (b_historyIndex board + 1) (b_history board) @ [b_elements updatedBoard]
             in Some (updatedBoard\<lparr> b_history := newHistory, b_historyIndex := length newHistory - 1 \<rparr>))
          else Some updatedBoard)"

definition updateActiveBoard :: "(Board \<Rightarrow> Board option) \<Rightarrow> bool \<Rightarrow> App \<Rightarrow> App option" where
  "updateActiveBoard updater commit app =
     map_option (\<lambda>nextBoards. app\<lparr> boards := nextBoards \<rparr>)
       (those (map (\<lambda>board. if b_id board \<noteq> activeBoardId app then Some board
                               else updateBoard updater commit board) (boards app)))"

definition setElementsAndCommitBoard :: "(Element list \<Rightarrow> Element list) \<Rightarrow> bool \<Rightarrow> Board \<Rightarrow> Board option" where
  "setElementsAndCommitBoard updater commit =
     updateBoard (\<lambda>board.
       let newElements = updater (b_elements board) in
       if commit then Some (board\<lparr> b_elements := newElements \<rparr>)
       else (case js_write (b_history board) (b_historyIndex board) newElements of
               None \<Rightarrow> None
             | Some tempHistory \<Rightarrow> Some (board\<lparr> b_elements := newElements, b_history := tempHistory \<rparr>)))
       commit"

definition commitActionBoard :: "(Element list \<Rightarrow> Element list) \<Rightarrow> Board \<Rightarrow> Board option" where
  "commitActionBoard updater =
     updateBoard (\<lambda>board. Some (board\<lparr> b_elements := updater (b_elements board) \<rparr>)) True"

definition handleUndoBoard :: "Board \<Rightarrow> Board option" where
  "handleUndoBoard =
     updateBoard (\<lambda>board.
       if b_historyIndex board > 0 then
         (case js_read (b_history board) (b_historyIndex board - 1) of
            None \<Rightarrow> None
          | Some snapshot \<Rightarrow>
              Some (board\<lparr> b_historyIndex := b_historyIndex board - 1, b_elements := snapshot \<rparr>))
       else Some board) False"

definition handleRedoBoard :: "Board \<Rightarrow> Board option" where
  "handleRedoBoard =
     updateBoard (\<lambda>board.
       if int (b_historyIndex board) < int (length (b_history board)) - 1 then
         (case js_read (b_history board) (b_historyIndex board + 1) of
            None \<Rightarrow> None
          | Some snapshot \<Rightarrow>
              Some (board\<lparr> b_historyIndex := b_historyIndex board + 1, b_elements := snapshot \<rparr>))
       else Some board) False"

text \<open>The same four operations on the application state, through \<open>updateActiveBoard\<close>.\<close>

definition setElementsAndCommit :: "(Element list \<Rightarrow> Element list) \<Rightarrow> bool \<Rightarrow> App \<Rightarrow> App option" where
  "setElementsAndCommit updater commit =
     updateActiveBoard (\<lambda>board.
       let newElements = updater (b_elements board) in
       if commit then Some (board\<lparr> b_elements := newElements \<rparr>)
       else (case js_write (b_history board) (b_historyIndex board) newElements of
               None \<Rightarrow> None
             | Some tempHistory \<Rightarrow> Some (board\<lparr> b_elements := newElements, b_history := tempHistory \<rparr>)))
       commit"

definition commitAction :: "(Element list \<Rightarrow> Element list) \<Rightarrow> App \<Rightarrow> App option" where
  "commitAction updater =
     updateActiveBoard (\<lambda>board. Some (board\<lparr> b_elements := updater (b_elements board) \<rparr>)) True"

definition handleUndo :: "App \<Rightarrow> App option" where
  "handleUndo =
     updateActiveBoard (\<lambda>board.
       if b_historyIndex board > 0 then
         (case js_read (b_history board) (b_historyIndex board - 1) of
            None \<Rightarrow> None
          | Some snapshot \<Rightarrow>
              Some (board\<lparr> b_historyIndex := b_historyIndex board - 1, b_elements := snapshot \<rparr>))
       else Some board) False"

definition handleRedo :: "App \<Rightarrow> App option" where
  "handleRedo =
     updateActiveBoard (\<lambda>board.
       if int (b_historyIndex board) < int (length (b_history board)) - 1 then
         (case js_read (b_history board) (b_historyIndex board + 1) of
            None \<Rightarrow> None
          | Some snapshot \<Rightarrow>
              Some (board\<lparr> b_historyIndex := b_historyIndex board + 1, b_elements := snapshot \<rparr>))
       else Some board) False"

text \<open>
  The board mutations of the history mechanism, and a run of them from a board. A run
  stops with \<open>None\<close> as soon as a step leaves the \<open>Board\<close> type.
\<close>

datatype BoardOp =
    Commit "Element list \<Rightarrow> Element list"
  | Transient "Element list \<Rightarrow> Element list"
  | Undo
  | Redo

fun applyOp :: "BoardOp \<Rightarrow> Board \<Rightarrow> Board option" where
  "applyOp (Commit u) b = commitActionBoard u b"
| "applyOp (Transient u) b = setElementsAndCommitBoard u False b"
| "applyOp Undo b = handleUndoBoard b"
| "applyOp Redo b = handleRedoBoard b"

fun runOps :: "BoardOp list \<Rightarrow> Board \<Rightarrow> Board option" where
  "runOps [] b = Some b"
| "runOps (opn # ops) b = (case applyOp opn b of None \<Rightarrow> None | Some b' \<Rightarrow> runOps ops b')"

definition historyConsistent :: "Board \<Rightarrow> bool" where
  "historyConsistent b \<longleftrightarrow>
     b_historyIndex b < length (b_history b) \<and> b_history b ! b_historyIndex b = b_elements b"

text \<open>
  The updater of the drawing tools at pointer-down, \<open>prev => [...prev, newElement]\<close>,
  and an element with the optional fields unset, for the concrete boards below.
\<close>

definition appendElement :: "Element \<Rightarrow> Element list \<Rightarrow> Element list" where
  "appendElement newElement prev = prev @ [newElement]"

definition mkElement :: "string \<Rightarrow> ElementType \<Rightarrow> real \<Rightarrow> real \<Rightarrow> real \<Rightarrow> real \<Rightarrow> Element" where
  "mkElement i t x y w h =
     \<lparr> el_id = i, el_type = t, el_x = x, el_y = y, el_width = w, el_height = h,
       el_points = [], el_rotation = None, el_isLocked = None, el_isVisible = None,
       el_parentId = None, el_name = None \<rparr>"

section \<open>Geometry utilities (utils/mathUtils.ts)\<close>

definition rotatePoint :: "Point \<Rightarrow> Point \<Rightarrow> real \<Rightarrow> Point" where
  "rotatePoint point center angleDegrees =
     (let angleRad = (angleDegrees * pi) / 180;
          c = cos angleRad;
          s = sin angleRad;
          translatedX = px point - px center;
          translatedY = py point - py center;
          rotatedX = translatedX * c - translatedY * s;
          rotatedY = translatedX * s + translatedY * c
      in \<lparr> px = rotatedX + px center, py = rotatedY + py center \<rparr>)"

section \<open>Element bounds (utils/elementUtils.ts)\<close>

text \<open>
  \<open>getElementBounds(element, allElements?)\<close> is imported from \<open>utils/elementUtils\<close>,
  which is not among the sources. The functions below take it as the parameter
  \<open>gb\<close>; its second argument is \<open>None\<close> where the caller passes none. The general
  theorems hold for every such function. The two definitions that follow are used only
  to run the functions on concrete elements.
\<close>

text \<open>
  Modelled from the spec: the bounds of a point list, for \<open>getElementBounds\<close> of
  \<open>utils/elementUtils\<close>, which is missing. The spec (4.4) gives "min/max over point list
  for path; min/max over the 2-point list for arrow/line"; it says nothing of an empty
  point list, taken here as the zero rectangle.
\<close>

definition pointsBounds :: "Point list \<Rightarrow> Rect" where
  "pointsBounds ps =
     (if ps = [] then \<lparr> rx = 0, ry = 0, rwidth = 0, rheight = 0 \<rparr>
      else \<lparr> rx = Min (set (map px ps)), ry = Min (set (map py ps)),
             rwidth = Max (set (map px ps)) - Min (set (map px ps)),
             rheight = Max (set (map py ps)) - Min (set (map py ps)) \<rparr>)"

text \<open>
  Modelled from the spec: \<open>getElementBounds\<close> of \<open>utils/elementUtils\<close>, which is
  missing. The spec (4.4) gives "variant dispatch - direct width/height for
  image/shape/text/video/frame/group; min/max over point list for path; min/max over
  the 2-point list for arrow/line".
\<close>

definition getElementBounds :: "Element \<Rightarrow> Element list option \<Rightarrow> Rect" where
  "getElementBounds el allElements =
     (case el_type el of
        Path \<Rightarrow> pointsBounds (el_points el)
      | Arrow \<Rightarrow> pointsBounds (el_points el)
      | Line \<Rightarrow> pointsBounds (el_points el)
      | _ \<Rightarrow> \<lparr> rx = el_x el, ry = el_y el, rwidth = el_width el, rheight = el_height el \<rparr>)"

section \<open>Selection and containment utilities (utils/selectionUtils.ts)\<close>

text \<open>
  Truthiness of the optional fields: \<open>parentId\<close> is falsy when undefined or the empty
  string, \<open>isLocked\<close> when undefined or false, \<open>rotation\<close> when undefined or 0.
\<close>

definition isLockedTruthy :: "Element \<Rightarrow> bool" where
  "isLockedTruthy el \<longleftrightarrow> el_isLocked el = Some True"

text \<open>
  The \<open>while (current.parentId)\<close> loop of \<open>getSelectableElement\<close>. It does not end on
  a cycle of unlocked non-frame parents, so it is a partial function: the outer
  \<open>None\<close> is "does not return", \<open>Some None\<close> is the result \<open>null\<close>.
\<close>

partial_function (option) climb :: "Element list \<Rightarrow> Element \<Rightarrow> Element option option" where
  "climb allElements current =
     (case el_parentId current of
        None \<Rightarrow> Some (Some current)
      | Some pid \<Rightarrow>
          if pid = [] then Some (Some current)
          else (case find (\<lambda>el. el_id el = pid) allElements of
                  None \<Rightarrow> Some (Some current)
                | Some parent \<Rightarrow>
                    if isLockedTruthy parent then Some None
                    else if el_type parent = Frame then Some (Some current)
                    else climb allElements parent))"

declare climb.simps [code]

definition getSelectableElement :: "string \<Rightarrow> Element list \<Rightarrow> Element option option" where
  "getSelectableElement elementId allElements =
     (case find (\<lambda>el. el_id el = elementId) allElements of
        None \<Rightarrow> Some None
      | Some element \<Rightarrow>
          if isLockedTruthy element then Some None
          else climb allElements element)"

text \<open>
  The accumulators \<open>minX, minY, maxX, maxY\<close> of \<open>getSelectionBounds\<close> start at
  \<open>Infinity\<close> and \<open>-Infinity\<close>, here \<open>None\<close>; \<open>Math.min\<close> and \<open>Math.max\<close> with that
  initial value return the other argument.
\<close>

fun accMin :: "real option \<Rightarrow> real \<Rightarrow> real option" where
  "accMin None v = Some v"
| "accMin (Some m) v = Some (min m v)"

fun accMax :: "real option \<Rightarrow> real \<Rightarrow> real option" where
  "accMax None v = Some v"
| "accMax (Some m) v = Some (max m v)"

record BoundsAcc =
  minX :: "real option"
  minY :: "real option"
  maxX :: "real option"
  maxY :: "real option"

definition addCorner :: "BoundsAcc \<Rightarrow> Point \<Rightarrow> BoundsAcc" where
  "addCorner acc corner =
     \<lparr> minX = accMin (minX acc) (px corner), minY = accMin (minY acc) (py corner),
       maxX = accMax (maxX acc) (px corner), maxY = accMax (maxY acc) (py corner) \<rparr>"

definition rotationOr0 :: "Element \<Rightarrow> real" where
  "rotationOr0 el = (case el_rotation el of None \<Rightarrow> 0 | Some r \<Rightarrow> r)"

definition cornersOf :: "Rect \<Rightarrow> Point list" where
  "cornersOf b =
     [\<lparr> px = rx b, py = ry b \<rparr>,
      \<lparr> px = rx b + rwidth b, py = ry b \<rparr>,
      \<lparr> px = rx b + rwidth b, py = ry b + rheight b \<rparr>,
      \<lparr> px = rx b, py = ry b + rheight b \<rparr>]"

definition centerOf :: "Rect \<Rightarrow> Point" where
  "centerOf b = \<lparr> px = rx b + rwidth b / 2, py = ry b + rheight b / 2 \<rparr>"

definition addElementCorners ::
  "(Element \<Rightarrow> Element list option \<Rightarrow> Rect) \<Rightarrow> Element list \<Rightarrow> BoundsAcc \<Rightarrow> Element \<Rightarrow> BoundsAcc" where
  "addElementCorners gb allElements acc el =
     (let unrotatedBounds = gb el (Some allElements) in
      if rwidth unrotatedBounds = 0 \<and> rheight unrotatedBounds = 0 then acc
      else
        let center = centerOf unrotatedBounds;
            rotation = rotationOr0 el;
            corners = cornersOf unrotatedBounds;
            rotatedCorners = (if rotation = 0 then corners
                              else map (\<lambda>c. rotatePoint c center rotation) corners)
        in foldl addCorner acc rotatedCorners)"

definition getSelectionBounds ::
  "(Element \<Rightarrow> Element list option \<Rightarrow> Rect) \<Rightarrow> string list \<Rightarrow> Element list \<Rightarrow> Rect" where
  "getSelectionBounds gb selectionIds allElements =
     (let selectedElements = filter (\<lambda>el. el_id el \<in> set selectionIds) allElements in
      if length selectedElements = 0 then \<lparr> rx = 0, ry = 0, rwidth = 0, rheight = 0 \<rparr>
      else
        let acc = foldl (addElementCorners gb allElements)
                    \<lparr> minX = None, minY = None, maxX = None, maxY = None \<rparr> selectedElements
        in (case (minX acc, minY acc, maxX acc, maxY acc) of
              (Some x0, Some y0, Some x1, Some y1) \<Rightarrow>
                 \<lparr> rx = x0, ry = y0, rwidth = x1 - x0, rheight = y1 - y0 \<rparr>
            | _ \<Rightarrow> \<lparr> rx = 0, ry = 0, rwidth = 0, rheight = 0 \<rparr>))"

text \<open>
  For the statements about \<open>getSelectableElement\<close>: the parent an element resolves to
  (none when \<open>parentId\<close> is falsy or names no element), and a list of elements each of
  which is the parent of the one before, starting from a given element.
\<close>

definition parentOf :: "Element list \<Rightarrow> Element \<Rightarrow> Element option" where
  "parentOf allElements el =
     (case el_parentId el of
        None \<Rightarrow> None
      | Some pid \<Rightarrow> if pid = [] then None else find (\<lambda>e. el_id e = pid) allElements)"

fun parentChain :: "Element list \<Rightarrow> Element \<Rightarrow> Element list \<Rightarrow> bool" where
  "parentChain allElements cur [] = True"
| "parentChain allElements cur (p # ps) =
     (parentOf allElements cur = Some p \<and> parentChain allElements p ps)"

text \<open>
  For the statement about \<open>getSelectionBounds\<close>, in the spec's words: the axis-aligned
  bounding box of a list of points.
\<close>

definition boundingBoxOfPoints :: "Point list \<Rightarrow> Rect" where
  "boundingBoxOfPoints ps =
     \<lparr> rx = Min (px ` set ps), ry = Min (py ` set ps),
       rwidth = Max (px ` set ps) - Min (px ` set ps),
       rheight = Max (py ` set ps) - Min (py ` set ps) \<rparr>"

section \<open>Interaction engine (useCanvasInteractions)\<close>

subsection \<open>Frame containment at release\<close>

text \<open>
  \<open>Array.prototype.sort\<close> is stable. With a consistent comparator its result is the
  stable ordering, computed here by insertion from the left; with an inconsistent one
  the order is implementation-defined and the model is one of the permitted results.
  On frames of positive height the comparator below is consistent: its sign is that of
  \<open>a.width - b.width\<close>.
\<close>

fun insertSorted :: "('a \<Rightarrow> 'a \<Rightarrow> real) \<Rightarrow> 'a \<Rightarrow> 'a list \<Rightarrow> 'a list" where
  "insertSorted cmp v [] = [v]"
| "insertSorted cmp v (w # ws) =
     (if cmp v w < 0 then v # w # ws else w # insertSorted cmp v ws)"

definition js_sort :: "('a \<Rightarrow> 'a \<Rightarrow> real) \<Rightarrow> 'a list \<Rightarrow> 'a list" where
  "js_sort cmp xs = foldl (\<lambda>sorted v. insertSorted cmp v sorted) [] xs"

text \<open>
  The comparator as written at its three occurrences,
  \<open>(a, b) => (a.width * a.height) - (b.width * a.height)\<close>, and the filter and sort
  they share: the first of the sorted frames that contain the bounds, if any.
\<close>

definition frameCompare :: "Element \<Rightarrow> Element \<Rightarrow> real" where
  "frameCompare a b = (el_width a * el_height a) - (el_width b * el_height a)"

definition frameContains :: "Rect \<Rightarrow> Element \<Rightarrow> bool" where
  "frameContains bounds frame \<longleftrightarrow>
     rx bounds \<ge> el_x frame \<and>
     ry bounds \<ge> el_y frame \<and>
     rx bounds + rwidth bounds \<le> el_x frame + el_width frame \<and>
     ry bounds + rheight bounds \<le> el_y frame + el_height frame"

definition containingFrame :: "Element list \<Rightarrow> Rect \<Rightarrow> Element option" where
  "containingFrame frames bounds =
     (case js_sort frameCompare (filter (frameContains bounds) frames) of
        [] \<Rightarrow> None
      | frame # _ \<Rightarrow> Some frame)"

definition parentIdTruthy :: "Element \<Rightarrow> bool" where
  "parentIdTruthy el \<longleftrightarrow> (case el_parentId el of None \<Rightarrow> False | Some pid \<Rightarrow> pid \<noteq> [])"

text \<open>
  The updater committed by \<open>handleMouseUp\<close> in mode \<open>dragElements\<close>. It reads the keys
  of \<open>dragStartElementPositions\<close> when it runs; \<open>movingElementIds\<close> is what the map
  holds at that moment.
\<close>

definition dragReleaseUpdater ::
  "(Element \<Rightarrow> Element list option \<Rightarrow> Rect) \<Rightarrow> string list \<Rightarrow> Element list \<Rightarrow> Element list" where
  "dragReleaseUpdater gb movingElementIds els =
     (let frames = filter (\<lambda>e. el_type e = Frame) els in
      map (\<lambda>el.
        if el_id el \<notin> set movingElementIds \<or> el_type el = Frame then el
        else
          let elBounds = gb el (Some els);
              newParentId = map_option el_id (containingFrame frames elBounds)
          in if el_parentId el \<noteq> newParentId then el\<lparr> el_parentId := newParentId \<rparr> else el) els)"

text \<open>\<open>commitAndParent\<close> of \<open>handleMouseUp\<close>, for the drawing modes.\<close>

definition commitAndParentUpdater ::
  "(Element \<Rightarrow> Element list option \<Rightarrow> Rect) \<Rightarrow> string \<Rightarrow> Element list \<Rightarrow> Element list" where
  "commitAndParentUpdater gb drawnElementId els =
     (case find (\<lambda>e. el_id e = drawnElementId) els of
        None \<Rightarrow> els
      | Some newElement \<Rightarrow>
          let frames = filter (\<lambda>e. el_type e = Frame) els in
          if length frames = 0 then els
          else
            (case containingFrame frames (gb newElement (Some els)) of
               None \<Rightarrow> els
             | Some frame \<Rightarrow>
                 if el_id newElement \<noteq> el_id frame
                 then map (\<lambda>el. if el_id el = el_id newElement
                                 then el\<lparr> el_parentId := Some (el_id frame) \<rparr> else el) els
                 else els))"

definition commitAndParent ::
  "(Element \<Rightarrow> Element list option \<Rightarrow> Rect) \<Rightarrow> string option \<Rightarrow> Board \<Rightarrow> Board option" where
  "commitAndParent gb drawnElementId =
     (case drawnElementId of
        None \<Rightarrow> commitActionBoard (\<lambda>els. els)
      | Some i \<Rightarrow> if i = [] then commitActionBoard (\<lambda>els. els)
                  else commitActionBoard (commitAndParentUpdater gb i))"

text \<open>\<open>addElementsWithParenting\<close> of App.tsx, with its upsert by id.\<close>

fun findIndex :: "('a \<Rightarrow> bool) \<Rightarrow> 'a list \<Rightarrow> nat option" where
  "findIndex P [] = None"
| "findIndex P (v # vs) = (if P v then Some 0 else map_option Suc (findIndex P vs))"

definition upsert :: "Element list \<Rightarrow> Element \<Rightarrow> Element list" where
  "upsert nextElements el =
     (case findIndex (\<lambda>e. el_id e = el_id el) nextElements of
        Some index \<Rightarrow> nextElements[index := el]
      | None \<Rightarrow> nextElements @ [el])"

definition addElementsWithParentingUpdater ::
  "(Element \<Rightarrow> Element list option \<Rightarrow> Rect) \<Rightarrow> Element list \<Rightarrow> Element list \<Rightarrow> Element list" where
  "addElementsWithParentingUpdater gb elementsToAdd prev =
     (let frames = filter (\<lambda>el. el_type el = Frame) prev;
          processedElementsToAdd =
            map (\<lambda>newEl.
              if parentIdTruthy newEl then newEl
              else if length frames = 0 then newEl
              else (case containingFrame frames (gb newEl (Some (prev @ elementsToAdd))) of
                      Some frame \<Rightarrow> newEl\<lparr> el_parentId := Some (el_id frame) \<rparr>
                    | None \<Rightarrow> newEl)) elementsToAdd
      in foldl upsert prev processedElementsToAdd)"

definition addElementsWithParenting ::
  "(Element \<Rightarrow> Element list option \<Rightarrow> Rect) \<Rightarrow> Element list \<Rightarrow> bool \<Rightarrow> Board \<Rightarrow> Board option" where
  "addElementsWithParenting gb elementsToAdd commit =
     (if commit then commitActionBoard (addElementsWithParentingUpdater gb elementsToAdd)
      else setElementsAndCommitBoard (addElementsWithParentingUpdater gb elementsToAdd) False)"

subsection \<open>Erase\<close>

text \<open>
  \<open>Math.hypot\<close>, and the erase branch of \<open>handleMouseMove\<close>. The loop over a path's
  points runs \<open>for (i = 0; i < el.points.length - 1; i++)\<close>, that is over all points
  but the last. \<open>elements\<close> is the component's copy of the board's elements. The zoom
  is not 0 in the application (the wheel handler keeps it in [0.1, 10]).
\<close>

definition hypot :: "real \<Rightarrow> real \<Rightarrow> real" where
  "hypot a b = sqrt (a\<^sup>2 + b\<^sup>2)"

definition pathHit :: "Point \<Rightarrow> real \<Rightarrow> Element \<Rightarrow> bool" where
  "pathHit point eraseRadius el \<longleftrightarrow>
     el_type el = Path \<and>
     list_ex (\<lambda>p. hypot (px point - px p) (py point - py p) < eraseRadius)
             (butlast (el_points el))"

definition eraseIdsToDelete :: "real \<Rightarrow> real \<Rightarrow> Point \<Rightarrow> Element list \<Rightarrow> string list" where
  "eraseIdsToDelete strokeWidth zoom point elements =
     map el_id (filter (pathHit point (strokeWidth / zoom)) elements)"

definition eraseMove :: "real \<Rightarrow> real \<Rightarrow> Point \<Rightarrow> Element list \<Rightarrow> Board \<Rightarrow> Board option" where
  "eraseMove strokeWidth zoom point elements board =
     (let idsToDelete = eraseIdsToDelete strokeWidth zoom point elements in
      if length idsToDelete > 0
      then setElementsAndCommitBoard (filter (\<lambda>el. el_id el \<notin> set idsToDelete)) False board
      else Some board)"

subsection \<open>Rounded arithmetic\<close>

text \<open>
  The arithmetic of the drag branch is that of IEEE 754 doubles: the exact result of
  an operation, rounded to the nearest number with a 53-bit significand, ties to the
  even significand. \<open>exponentOf x\<close> is the \<open>e\<close> with \<open>2^e \<le> x < 2^(e+1)\<close> for a
  positive \<open>x\<close>. The exponent is unbounded here: there is no overflow to infinity and
  no subnormal number, and division by zero is left out (the zoom is not 0: the wheel
  handler keeps it in [0.1, 10]).
\<close>

function normUp :: "real \<Rightarrow> int \<Rightarrow> int" where
  "normUp x e = (if 2 \<le> x then normUp (x / 2) (e + 1) else e)"
  by pat_completeness auto
termination
proof (relation "measure (\<lambda>(x, e). nat \<lfloor>x\<rfloor>)")
  show "wf (measure (\<lambda>(x, e). nat \<lfloor>x\<rfloor>))" by simp
next
  fix x :: real and e :: int
  assume "2 \<le> x"
  then have "\<lfloor>x / 2\<rfloor> < \<lfloor>x\<rfloor>" and "0 < \<lfloor>x\<rfloor>" by linarith+
  then show "((x / 2, e + 1), (x, e)) \<in> measure (\<lambda>(x, e). nat \<lfloor>x\<rfloor>)" by simp
qed

function normDown :: "real \<Rightarrow> int \<Rightarrow> int" where
  "normDown x e = (if 0 < x \<and> x < 1 then normDown (2 * x) (e - 1) else e)"
  by pat_completeness auto
termination
proof (relation "measure (\<lambda>(x, e). nat \<lceil>1 / x\<rceil>)")
  show "wf (measure (\<lambda>(x, e). nat \<lceil>1 / x\<rceil>))" by simp
next
  fix x :: real and e :: int
  assume a: "0 < x \<and> x < 1"
  define y where "y = 1 / x"
  define n where "n = \<lceil>y\<rceil>"
  from a have y1: "1 < y" by (simp add: y_def)
  then have c2: "2 \<le> n" unfolding n_def by linarith
  then have r2: "(2::real) \<le> of_int n" by simp
  have "y \<le> of_int n" unfolding n_def by (rule le_of_int_ceiling)
  with r2 have "y / 2 \<le> of_int (n - 1)" by simp
  then have "\<lceil>y / 2\<rceil> \<le> n - 1" by (rule ceiling_le)
  with c2 have lt: "nat \<lceil>y / 2\<rceil> < nat n" by linarith
  have h: "1 / (2 * x) = y / 2" by (simp add: y_def)
  show "((2 * x, e - 1), (x, e)) \<in> measure (\<lambda>(x, e). nat \<lceil>1 / x\<rceil>)"
    using lt unfolding n_def by (simp only: in_measure split_conv h) (simp add: y_def)
qed

definition exponentOf :: "real \<Rightarrow> int" where
  "exponentOf x = (if 1 \<le> x then normUp x 0 else normDown x 0)"

definition pow2 :: "int \<Rightarrow> real" where
  "pow2 e = (if 0 \<le> e then 2 ^ nat e else 1 / 2 ^ nat (- e))"

definition roundTiesEven :: "real \<Rightarrow> int" where
  "roundTiesEven y =
     (let f = \<lfloor>y\<rfloor>; r = y - of_int f in
      if r < 1 / 2 then f
      else if 1 / 2 < r then f + 1
      else if even f then f else f + 1)"

definition fl :: "real \<Rightarrow> real" where
  "fl x = (if x = 0 then 0
           else let u = pow2 (exponentOf \<bar>x\<bar> - 52)
                in of_int (roundTiesEven (x / u)) * u)"




subsection \<open>Dragging elements\<close>























text \<open>
  For the statement about dragging there and back: the position of an element, in its
  \<open>x\<close>, \<open>y\<close> and points.
\<close>

definition positionOf :: "Element \<Rightarrow> real \<times> real \<times> Point list" where
  "positionOf el = (el_x el, el_y el, el_points el)"







subsection \<open>Resizing\<close>

text \<open>
  The \<open>resize-<handle>\<close> branch of \<open>handleMouseMove\<close>, in the order of the source: the
  pointer displacement in the element's rotated frame, the new size, the position that
  keeps the pivot in place, and the update of the element. The handle is the string of
  the \<open>data-handle\<close> attribute (\<open>tl\<close>, \<open>tm\<close>, \<open>tr\<close>, \<open>ml\<close>, \<open>mr\<close>, \<open>bl\<close>, \<open>bm\<close>, \<open>br\<close>),
  tested with \<open>handle.includes\<close>.
\<close>

definition handleIncludes :: "string \<Rightarrow> char \<Rightarrow> bool" where
  "handleIncludes handle c \<longleftrightarrow> c \<in> set handle"

definition resizeLocalDelta :: "real \<Rightarrow> real \<Rightarrow> real \<Rightarrow> real \<times> real" where
  "resizeLocalDelta rotation dx dy =
     (let angleRad = (rotation * pi) / 180;
          c = cos angleRad;
          s = sin angleRad;
          dx_local = dx * c + dy * s;
          dy_local = - dx * s + dy * c
      in (dx_local, dy_local))"

definition isProportional :: "Element \<Rightarrow> bool \<Rightarrow> bool" where
  "isProportional originalElement shiftKey \<longleftrightarrow>
     el_type originalElement = Image \<or> (shiftKey \<and> el_type originalElement \<noteq> Text)"

definition resizeSize :: "string \<Rightarrow> bool \<Rightarrow> Rect \<Rightarrow> real \<Rightarrow> real \<Rightarrow> real \<times> real" where
  "resizeSize handle proportional originalBounds dx_local dy_local =
     (let w0 = rwidth originalBounds;
          h0 = rheight originalBounds;
          w1 = (if handleIncludes handle CHR ''r'' then rwidth originalBounds + dx_local else w0);
          w2 = (if handleIncludes handle CHR ''l'' then rwidth originalBounds - dx_local else w1);
          h1 = (if handleIncludes handle CHR ''b'' then rheight originalBounds + dy_local else h0);
          h2 = (if handleIncludes handle CHR ''t'' then rheight originalBounds - dy_local else h1);
          wh = (if proportional \<and> rwidth originalBounds > 0 \<and> rheight originalBounds > 0 then
                  (let aspectRatio = rwidth originalBounds / rheight originalBounds in
                   if handleIncludes handle CHR ''r'' \<or> handleIncludes handle CHR ''l''
                   then (w2, w2 / aspectRatio)
                   else (h2 * aspectRatio, h2))
                else (w2, h2));
          newWidth = (if fst wh < 1 then 1 else fst wh);
          newHeight = (if snd wh < 1 then 1 else snd wh)
      in (newWidth, newHeight))"

definition pivotLocal :: "string \<Rightarrow> Rect \<Rightarrow> Point" where
  "pivotLocal handle r =
     \<lparr> px = (if handleIncludes handle CHR ''l'' then rx r + rwidth r
              else if handleIncludes handle CHR ''r'' then rx r
              else px (centerOf r)),
       py = (if handleIncludes handle CHR ''t'' then ry r + rheight r
              else if handleIncludes handle CHR ''b'' then ry r
              else py (centerOf r)) \<rparr>"

definition resizePosition :: "string \<Rightarrow> real \<Rightarrow> Rect \<Rightarrow> real \<Rightarrow> real \<Rightarrow> real \<times> real" where
  "resizePosition handle rotation originalBounds newWidth newHeight =
     (let originalCenter = centerOf originalBounds;
          pivot_world = rotatePoint (pivotLocal handle originalBounds) originalCenter rotation;
          tempX = (if handleIncludes handle CHR ''l''
                   then rx originalBounds + rwidth originalBounds - newWidth else rx originalBounds);
          tempY = (if handleIncludes handle CHR ''t''
                   then ry originalBounds + rheight originalBounds - newHeight else ry originalBounds);
          temp = \<lparr> rx = tempX, ry = tempY, rwidth = newWidth, rheight = newHeight \<rparr>;
          new_pivot_world = rotatePoint (pivotLocal handle temp) (centerOf temp) rotation;
          dx_world = px pivot_world - px new_pivot_world;
          dy_world = py pivot_world - py new_pivot_world
      in (tempX + dx_world, tempY + dy_world))"

record Resized =
  finalX :: real
  finalY :: real
  newWidth :: real
  newHeight :: real
  scaleX :: real
  scaleY :: real

text \<open>\<open>None\<close> is the early \<open>return\<close> for a zero-size element and a displacement along an axis.\<close>

definition resizeGeometry ::
  "Element \<Rightarrow> string \<Rightarrow> bool \<Rightarrow> Rect \<Rightarrow> real \<Rightarrow> real \<Rightarrow> Resized option" where
  "resizeGeometry originalElement handle shiftKey originalBounds dx dy =
     (let rotation = rotationOr0 originalElement;
          local = resizeLocalDelta rotation dx dy
      in if rwidth originalBounds = 0 \<and> rheight originalBounds = 0 \<and>
            (fst local = 0 \<or> snd local = 0) then None
         else
           let size = resizeSize handle (isProportional originalElement shiftKey)
                        originalBounds (fst local) (snd local);
               pos = resizePosition handle rotation originalBounds (fst size) (snd size)
           in Some \<lparr> finalX = fst pos, finalY = snd pos,
                      newWidth = fst size, newHeight = snd size,
                      scaleX = (if rwidth originalBounds > 0
                                then fst size / rwidth originalBounds else 1),
                      scaleY = (if rheight originalBounds > 0
                                then snd size / rheight originalBounds else 1) \<rparr>)"

definition rescalePoint :: "Rect \<Rightarrow> Resized \<Rightarrow> Point \<Rightarrow> Point" where
  "rescalePoint originalBounds res p =
     \<lparr> px = finalX res + (px p - rx originalBounds) * scaleX res,
       py = finalY res + (py p - ry originalBounds) * scaleY res \<rparr>"

definition resizeElement :: "Element \<Rightarrow> Rect \<Rightarrow> Resized \<Rightarrow> Element \<Rightarrow> Element" where
  "resizeElement originalElement originalBounds res el =
     (if el_id el \<noteq> el_id originalElement then el
      else
        (case el_type el of
           Path \<Rightarrow> el\<lparr> el_points := map (rescalePoint originalBounds res) (el_points originalElement) \<rparr>
         | Arrow \<Rightarrow>
             (case el_points originalElement of
                p0 # p1 # _ \<Rightarrow>
                  el\<lparr> el_points := [rescalePoint originalBounds res p0, rescalePoint originalBounds res p1] \<rparr>
              | _ \<Rightarrow> el)
         | Line \<Rightarrow>
             (case el_points originalElement of
                p0 # p1 # _ \<Rightarrow>
                  el\<lparr> el_points := [rescalePoint originalBounds res p0, rescalePoint originalBounds res p1] \<rparr>
              | _ \<Rightarrow> el)
         | Group \<Rightarrow> el
         | _ \<Rightarrow> el\<lparr> el_x := finalX res, el_y := finalY res,
                     el_width := newWidth res, el_height := newHeight res \<rparr>))"

definition resizeMove ::
  "(Element \<Rightarrow> Element list option \<Rightarrow> Rect) \<Rightarrow> Element \<Rightarrow> string \<Rightarrow> bool \<Rightarrow> Point \<Rightarrow> Point \<Rightarrow>
   Board \<Rightarrow> Board option" where
  "resizeMove gb originalElement handle shiftKey resizeStartPoint point board =
     (let originalBounds = gb originalElement (Some []) in
      case resizeGeometry originalElement handle shiftKey originalBounds
             (px point - px resizeStartPoint) (py point - py resizeStartPoint) of
        None \<Rightarrow> Some board
      | Some res \<Rightarrow>
          setElementsAndCommitBoard (map (resizeElement originalElement originalBounds res)) False board)"


section \<open>The active board\<close>

text \<open>
  When exactly one board has the active id, the four operations on the application
  state are the board operations applied to that board, the other boards unchanged.
\<close>

lemma those_map_Some: "those (map Some xs) = Some xs"
  by (induction xs) simp_all

lemma those_one:
  "those (map Some pre @ ob # map Some post) = map_option (\<lambda>b'. pre @ b' # post) ob"
  by (induction pre) (cases ob; simp add: those_map_Some option.map_comp comp_def)+

lemma updateActiveBoard_active:
  assumes "boards app = pre @ b # post"
    and "b_id b = activeBoardId app"
    and "\<forall>x\<in>set (pre @ post). b_id x \<noteq> activeBoardId app"
  shows "updateActiveBoard updater commit app =
           map_option (\<lambda>b'. app\<lparr> boards := pre @ b' # post \<rparr>) (updateBoard updater commit b)"
proof -
  let ?f = "\<lambda>board. if b_id board \<noteq> activeBoardId app then Some board
                     else updateBoard updater commit board"
  have p: "map ?f pre = map Some pre" and q: "map ?f post = map Some post"
    using assms(3) by auto
  have "those (map ?f (boards app)) =
          map_option (\<lambda>b'. pre @ b' # post) (updateBoard updater commit b)"
    unfolding assms(1) map_append list.map p q
    using assms(2) by (simp add: those_one)
  then show ?thesis
    by (simp add: updateActiveBoard_def option.map_comp comp_def)
qed

lemma commitAction_active:
  assumes "boards app = pre @ b # post"
    and "b_id b = activeBoardId app"
    and "\<forall>x\<in>set (pre @ post). b_id x \<noteq> activeBoardId app"
  shows "commitAction updater app =
           map_option (\<lambda>b'. app\<lparr> boards := pre @ b' # post \<rparr>) (commitActionBoard updater b)"
    and "setElementsAndCommit updater commit app =
           map_option (\<lambda>b'. app\<lparr> boards := pre @ b' # post \<rparr>)
             (setElementsAndCommitBoard updater commit b)"
    and "handleUndo app =
           map_option (\<lambda>b'. app\<lparr> boards := pre @ b' # post \<rparr>) (handleUndoBoard b)"
    and "handleRedo app =
           map_option (\<lambda>b'. app\<lparr> boards := pre @ b' # post \<rparr>) (handleRedoBoard b)"
  unfolding commitAction_def commitActionBoard_def setElementsAndCommit_def
    setElementsAndCommitBoard_def handleUndo_def handleUndoBoard_def handleRedo_def
    handleRedoBoard_def
  by (rule updateActiveBoard_active[OF assms])+

section \<open>Properties of the history\<close>

lemma commitActionBoard_eq:
  "commitActionBoard u b =
     Some (b\<lparr> b_elements := u (b_elements b),
              b_history := take (b_historyIndex b + 1) (b_history b) @ [u (b_elements b)],
              b_historyIndex := min (b_historyIndex b + 1) (length (b_history b)) \<rparr>)"
  by (simp add: commitActionBoard_def updateBoard_def Let_def)

lemma setElementsAndCommitBoard_True:
  "setElementsAndCommitBoard u True b = commitActionBoard u b"
  by (simp add: setElementsAndCommitBoard_def commitActionBoard_def updateBoard_def Let_def)

lemma setElementsAndCommitBoard_False:
  "b_historyIndex b < length (b_history b) \<Longrightarrow>
   setElementsAndCommitBoard u False b =
     Some (b\<lparr> b_elements := u (b_elements b),
              b_history := (b_history b)[b_historyIndex b := u (b_elements b)] \<rparr>)"
  by (simp add: setElementsAndCommitBoard_def updateBoard_def Let_def js_write_def)

lemma handleUndoBoard_eq:
  "b_historyIndex b < length (b_history b) \<Longrightarrow>
   handleUndoBoard b =
     Some (if 0 < b_historyIndex b
           then b\<lparr> b_historyIndex := b_historyIndex b - 1,
                    b_elements := b_history b ! (b_historyIndex b - 1) \<rparr>
           else b)"
  by (auto simp add: handleUndoBoard_def updateBoard_def js_read_def)

lemma handleRedoBoard_eq:
  "handleRedoBoard b =
     Some (if b_historyIndex b + 1 < length (b_history b)
           then b\<lparr> b_historyIndex := b_historyIndex b + 1,
                    b_elements := b_history b ! (b_historyIndex b + 1) \<rparr>
           else b)"
  by (auto simp add: handleRedoBoard_def updateBoard_def js_read_def)

lemma applyOp_consistent:
  assumes "historyConsistent b"
  shows "\<exists>b'. applyOp opn b = Some b' \<and> historyConsistent b'"
proof (cases opn)
  case (Commit u)
  then show ?thesis using assms
    by (simp add: commitActionBoard_eq historyConsistent_def nth_append min_def)
next
  case (Transient u)
  then show ?thesis using assms
    by (simp add: setElementsAndCommitBoard_False historyConsistent_def)
next
  case Undo
  then show ?thesis using assms
    by (auto simp add: handleUndoBoard_eq historyConsistent_def)
next
  case Redo
  then show ?thesis using assms
    by (auto simp add: handleRedoBoard_eq historyConsistent_def)
qed

lemma runOps_consistent:
  "historyConsistent b \<Longrightarrow> \<exists>b'. runOps ops b = Some b' \<and> historyConsistent b'"
proof (induction ops arbitrary: b)
  case Nil
  then show ?case by simp
next
  case (Cons opn ops)
  from applyOp_consistent[OF Cons.prems, of opn]
  obtain b1 where s: "applyOp opn b = Some b1" and c: "historyConsistent b1" by blast
  from Cons.IH[OF c] show ?case using s by simp
qed

lemma createNewBoard_consistent: "historyConsistent (createNewBoard i n)"
  by (simp add: createNewBoard_def historyConsistent_def)

text \<open>
  A commit on a board always succeeds, and gives the same board through
  \<open>commitAction\<close> and through \<open>setElementsAndCommit\<close> with \<open>commit = true\<close>.
\<close>

lemma commitActionBoard_snapshot:
  "case commitActionBoard u b of
     None \<Rightarrow> False
   | Some b' \<Rightarrow>
       b_elements b' = u (b_elements b) \<and>
       b_history b' = take (b_historyIndex b + 1) (b_history b) @ [u (b_elements b)] \<and>
       b_historyIndex b' = length (b_history b') - 1 \<and>
       b_history b' ! b_historyIndex b' = b_elements b' \<and>
       setElementsAndCommitBoard u True b = Some b'"
  by (simp add: commitActionBoard_eq setElementsAndCommitBoard_True nth_append min_def)

text \<open>
  C2. On an application state in which exactly one board \<open>b\<close> has the active id, a
  commit (\<open>commitAction\<close>, \<open>setElementsAndCommit\<close> with \<open>commit = true\<close>, that is
  \<open>updateActiveBoard\<close> with the commit flag) succeeds and changes that board only: its
  elements become the updater's result on its current elements, its history becomes
  the entries up to and including \<open>historyIndex\<close> followed by that result, and its
  \<open>historyIndex\<close> becomes the index of this last entry.
\<close>

theorem commit_truncates_and_appends:
  assumes "boards app = pre @ b # post"
    and "b_id b = activeBoardId app"
    and "\<forall>x\<in>set (pre @ post). b_id x \<noteq> activeBoardId app"
  shows "commitAction u app =
           Some (app\<lparr> boards :=
                   pre @ b\<lparr> b_elements := u (b_elements b),
                             b_history := take (b_historyIndex b + 1) (b_history b) @ [u (b_elements b)],
                             b_historyIndex :=
                               length (take (b_historyIndex b + 1) (b_history b) @ [u (b_elements b)]) - 1 \<rparr>
                         # post \<rparr>)
       \<and> setElementsAndCommit u True app = commitAction u app
       \<and> updateActiveBoard (\<lambda>board. Some (board\<lparr> b_elements := u (b_elements board) \<rparr>)) True app
           = commitAction u app"
proof -
  have "commitAction u app =
          map_option (\<lambda>b'. app\<lparr> boards := pre @ b' # post \<rparr>) (commitActionBoard u b)"
    by (rule commitAction_active(1)[OF assms])
  moreover have "setElementsAndCommit u True app =
          map_option (\<lambda>b'. app\<lparr> boards := pre @ b' # post \<rparr>) (setElementsAndCommitBoard u True b)"
    by (rule commitAction_active(2)[OF assms])
  ultimately show ?thesis
    by (simp add: commitActionBoard_eq setElementsAndCommitBoard_True min_def commitAction_def)
qed

theorem commit_truncates_and_appends_witness:
  "boards \<lparr> boards = [createNewBoard ''b1'' ''Board 1'',
                        (createNewBoard ''b2'' ''Board 2'')
                          \<lparr> b_elements := [],
                            b_history := [[], [mkElement ''e1'' Shape 0 0 10 10]] \<rparr>],
             activeBoardId = ''b2'' \<rparr>
     = [createNewBoard ''b1'' ''Board 1''] @
       (createNewBoard ''b2'' ''Board 2'')
          \<lparr> b_elements := [], b_history := [[], [mkElement ''e1'' Shape 0 0 10 10]] \<rparr> # [] \<and>
   b_id ((createNewBoard ''b2'' ''Board 2'')
          \<lparr> b_elements := [], b_history := [[], [mkElement ''e1'' Shape 0 0 10 10]] \<rparr>) = ''b2'' \<and>
   b_id (createNewBoard ''b1'' ''Board 1'') \<noteq> ''b2'' \<and>
   commitAction (appendElement (mkElement ''e2'' Shape 5 5 10 10))
     \<lparr> boards = [createNewBoard ''b1'' ''Board 1'',
                  (createNewBoard ''b2'' ''Board 2'')
                    \<lparr> b_elements := [],
                      b_history := [[], [mkElement ''e1'' Shape 0 0 10 10]] \<rparr>],
       activeBoardId = ''b2'' \<rparr>
     = Some \<lparr> boards = [createNewBoard ''b1'' ''Board 1'',
                  (createNewBoard ''b2'' ''Board 2'')
                    \<lparr> b_elements := [mkElement ''e2'' Shape 5 5 10 10],
                      b_history := [[], [mkElement ''e2'' Shape 5 5 10 10]],
                      b_historyIndex := 1 \<rparr>],
              activeBoardId = ''b2'' \<rparr>"
  using commit_truncates_and_appends
    [of "\<lparr> boards = [createNewBoard ''b1'' ''Board 1'',
                  (createNewBoard ''b2'' ''Board 2'')
                    \<lparr> b_elements := [],
                      b_history := [[], [mkElement ''e1'' Shape 0 0 10 10]] \<rparr>],
       activeBoardId = ''b2'' \<rparr>"
        "[createNewBoard ''b1'' ''Board 1'']"
        "(createNewBoard ''b2'' ''Board 2'')
          \<lparr> b_elements := [], b_history := [[], [mkElement ''e1'' Shape 0 0 10 10]] \<rparr>"
        "[]" "appendElement (mkElement ''e2'' Shape 5 5 10 10)"]
  by (simp add: createNewBoard_def appendElement_def)

text \<open>
  C3. A new board satisfies \<open>history[historyIndex] = elements\<close> with \<open>historyIndex\<close>
  in range (lemma \<open>createNewBoard_consistent\<close>), and from any board that does, every
  sequence of commits, transient updates, undos and redos runs to the end and ends in a
  board that does. Array identity is read as equality of the arrays' contents.
\<close>

theorem history_invariant:
  assumes "historyConsistent b"
  shows "case runOps ops b of None \<Rightarrow> False | Some b' \<Rightarrow> historyConsistent b'"
  using runOps_consistent[OF assms, of ops] by auto

theorem history_invariant_witness:
  "historyConsistent (createNewBoard ''b1'' ''Board 1'') \<and>
   (case runOps [Transient (appendElement (mkElement ''e1'' Shape 0 0 10 10)),
                 Commit (appendElement (mkElement ''e2'' Shape 5 5 10 10)),
                 Undo, Redo, Undo, Undo]
           (createNewBoard ''b1'' ''Board 1'')
    of None \<Rightarrow> False | Some b' \<Rightarrow> historyConsistent b')"
  using history_invariant[OF createNewBoard_consistent [of "''b1''" "''Board 1''"],
     of "[Transient (appendElement (mkElement ''e1'' Shape 0 0 10 10)),
                 Commit (appendElement (mkElement ''e2'' Shape 5 5 10 10)),
                 Undo, Redo, Undo, Undo]"]
  by (simp add: createNewBoard_consistent)

text \<open>
  C4, as the code has it. On a board with \<open>history[historyIndex] = elements\<close>: undo
  moves \<open>historyIndex\<close> down by one and loads that snapshot, and does nothing at index
  0; redo moves it up by one and loads that snapshot, and does nothing at the last
  index; undo followed by redo gives the board back unchanged when the undo moved
  (\<open>historyIndex > 0\<close>) or when there is nothing to redo.
\<close>

theorem undo_redo_moves_pointer:
  assumes "historyConsistent b"
  shows "handleUndoBoard b =
           Some (if 0 < b_historyIndex b
                 then b\<lparr> b_historyIndex := b_historyIndex b - 1,
                          b_elements := b_history b ! (b_historyIndex b - 1) \<rparr>
                 else b)
       \<and> handleRedoBoard b =
           Some (if b_historyIndex b + 1 < length (b_history b)
                 then b\<lparr> b_historyIndex := b_historyIndex b + 1,
                          b_elements := b_history b ! (b_historyIndex b + 1) \<rparr>
                 else b)
       \<and> (0 < b_historyIndex b \<or> b_historyIndex b + 1 = length (b_history b) \<longrightarrow>
            Option.bind (handleUndoBoard b) handleRedoBoard = Some b)"
proof -
  from assms have r: "b_historyIndex b < length (b_history b)"
    and e: "b_history b ! b_historyIndex b = b_elements b"
    by (simp_all add: historyConsistent_def)
  have "Option.bind (handleUndoBoard b) handleRedoBoard = Some b"
    if "0 < b_historyIndex b \<or> b_historyIndex b + 1 = length (b_history b)"
  proof (cases "0 < b_historyIndex b")
    case True
    then show ?thesis using r e by (simp add: handleUndoBoard_eq handleRedoBoard_eq)
  next
    case False
    then show ?thesis using r that by (simp add: handleUndoBoard_eq handleRedoBoard_eq)
  qed
  then show ?thesis using r by (simp add: handleUndoBoard_eq handleRedoBoard_eq)
qed

theorem undo_redo_moves_pointer_witness:
  "historyConsistent
     ((createNewBoard ''b1'' ''Board 1'')
        \<lparr> b_elements := [mkElement ''e1'' Shape 0 0 10 10],
          b_history := [[], [mkElement ''e1'' Shape 0 0 10 10]],
          b_historyIndex := 1 \<rparr>) \<and>
   handleUndoBoard
     ((createNewBoard ''b1'' ''Board 1'')
        \<lparr> b_elements := [mkElement ''e1'' Shape 0 0 10 10],
          b_history := [[], [mkElement ''e1'' Shape 0 0 10 10]],
          b_historyIndex := 1 \<rparr>)
     = Some ((createNewBoard ''b1'' ''Board 1'')
        \<lparr> b_elements := [],
          b_history := [[], [mkElement ''e1'' Shape 0 0 10 10]],
          b_historyIndex := 0 \<rparr>) \<and>
   Option.bind
     (handleUndoBoard
       ((createNewBoard ''b1'' ''Board 1'')
        \<lparr> b_elements := [mkElement ''e1'' Shape 0 0 10 10],
          b_history := [[], [mkElement ''e1'' Shape 0 0 10 10]],
          b_historyIndex := 1 \<rparr>)) handleRedoBoard
     = Some ((createNewBoard ''b1'' ''Board 1'')
        \<lparr> b_elements := [mkElement ''e1'' Shape 0 0 10 10],
          b_history := [[], [mkElement ''e1'' Shape 0 0 10 10]],
          b_historyIndex := 1 \<rparr>)"
  using undo_redo_moves_pointer [of "(createNewBoard ''b1'' ''Board 1'')
        \<lparr> b_elements := [mkElement ''e1'' Shape 0 0 10 10],
          b_history := [[], [mkElement ''e1'' Shape 0 0 10 10]],
          b_historyIndex := 1 \<rparr>"]
  by (simp add: historyConsistent_def createNewBoard_def handleRedoBoard_eq)

text \<open>
  C4 as stated fails at index 0 when there is something to redo: after one commit and
  one undo the board has \<open>historyIndex = 0\<close>, empty elements and one redo entry; a
  further undo does nothing, and the redo that follows loads the redo entry instead of
  restoring the empty elements.
\<close>

theorem undo_redo_at_start_counterexample:
  "runOps [Commit (appendElement (mkElement ''e1'' Shape 0 0 10 10)), Undo]
          (createNewBoard ''b1'' ''Board 1'')
     = Some ((createNewBoard ''b1'' ''Board 1'')
               \<lparr> b_history := [[], [mkElement ''e1'' Shape 0 0 10 10]] \<rparr>) \<and>
   b_elements ((createNewBoard ''b1'' ''Board 1'')
               \<lparr> b_history := [[], [mkElement ''e1'' Shape 0 0 10 10]] \<rparr>) = [] \<and>
   Option.bind
     (handleUndoBoard ((createNewBoard ''b1'' ''Board 1'')
               \<lparr> b_history := [[], [mkElement ''e1'' Shape 0 0 10 10]] \<rparr>))
     handleRedoBoard
     = Some ((createNewBoard ''b1'' ''Board 1'')
               \<lparr> b_elements := [mkElement ''e1'' Shape 0 0 10 10],
                 b_history := [[], [mkElement ''e1'' Shape 0 0 10 10]],
                 b_historyIndex := 1 \<rparr>) \<and>
   [mkElement ''e1'' Shape 0 0 10 10] \<noteq> []"
  by (simp add: createNewBoard_def commitActionBoard_eq handleUndoBoard_eq handleRedoBoard_eq
        appendElement_def)

text \<open>
  C5, as the code has it. On a board whose \<open>historyIndex\<close> is in range, a transient
  update (\<open>setElementsAndCommit\<close> with \<open>commit = false\<close>) succeeds, sets the elements
  to the updater's result, and overwrites the history slot at \<open>historyIndex\<close> with
  that result; the length of the history, \<open>historyIndex\<close> and every other slot are
  unchanged.
\<close>

theorem transient_replaces_current_slot:
  assumes "b_historyIndex b < length (b_history b)"
  shows "case setElementsAndCommitBoard u False b of
           None \<Rightarrow> False
         | Some b' \<Rightarrow>
             b_elements b' = u (b_elements b) \<and>
             b_history b' = (b_history b)[b_historyIndex b := u (b_elements b)] \<and>
             length (b_history b') = length (b_history b) \<and>
             b_historyIndex b' = b_historyIndex b"
  using assms by (simp add: setElementsAndCommitBoard_False)

theorem transient_replaces_current_slot_witness:
  "b_historyIndex (createNewBoard ''b1'' ''Board 1'')
     < length (b_history (createNewBoard ''b1'' ''Board 1'')) \<and>
   (case setElementsAndCommitBoard (appendElement (mkElement ''e1'' Shape 0 0 10 10)) False
           (createNewBoard ''b1'' ''Board 1'') of
      None \<Rightarrow> False
    | Some b' \<Rightarrow>
        b_elements b' = [mkElement ''e1'' Shape 0 0 10 10] \<and>
        b_history b' = [[mkElement ''e1'' Shape 0 0 10 10]] \<and>
        length (b_history b') = 1 \<and> b_historyIndex b' = 0)"
  using transient_replaces_current_slot
    [of "createNewBoard ''b1'' ''Board 1''" "appendElement (mkElement ''e1'' Shape 0 0 10 10)"]
  by (simp add: createNewBoard_def appendElement_def split: option.splits)

text \<open>
  C5 as stated fails: a transient update on a new board changes the stored snapshot
  \<open>history[0]\<close> from the empty array to the new elements.
\<close>

theorem transient_touches_history_counterexample:
  "setElementsAndCommitBoard (appendElement (mkElement ''e1'' Shape 0 0 10 10)) False
     (createNewBoard ''b1'' ''Board 1'')
     = Some ((createNewBoard ''b1'' ''Board 1'')
               \<lparr> b_elements := [mkElement ''e1'' Shape 0 0 10 10],
                 b_history := [[mkElement ''e1'' Shape 0 0 10 10]] \<rparr>) \<and>
   b_history (createNewBoard ''b1'' ''Board 1'') = [[]] \<and>
   [[mkElement ''e1'' Shape 0 0 10 10]] \<noteq> b_history (createNewBoard ''b1'' ''Board 1'')"
  by (simp add: createNewBoard_def setElementsAndCommitBoard_False appendElement_def)

section \<open>Properties of the selection utilities\<close>

lemma climb_unfold:
  "climb allElements current =
     (case parentOf allElements current of
        None \<Rightarrow> Some (Some current)
      | Some parent \<Rightarrow>
          if isLockedTruthy parent then Some None
          else if el_type parent = Frame then Some (Some current)
          else climb allElements parent)"
  by (subst climb.simps) (simp add: parentOf_def split: option.splits)

lemma climb_chain:
  assumes "parentChain allElements cur ps"
    and "\<forall>p\<in>set ps. \<not> isLockedTruthy p \<and> el_type p \<noteq> Frame"
  shows "climb allElements cur = climb allElements (last (cur # ps))"
  using assms
proof (induction ps arbitrary: cur)
  case Nil
  then show ?case by simp
next
  case (Cons p ps)
  from Cons.prems have par: "parentOf allElements cur = Some p"
    and ch: "parentChain allElements p ps"
    and ok: "\<not> isLockedTruthy p" "el_type p \<noteq> Frame"
    and rest: "\<forall>q\<in>set ps. \<not> isLockedTruthy q \<and> el_type q \<noteq> Frame"
    by simp_all
  have "climb allElements cur = climb allElements p"
    by (subst climb_unfold) (simp add: par ok)
  also have "\<dots> = climb allElements (last (p # ps))"
    by (rule Cons.IH[OF ch rest])
  finally show ?case by simp
qed

text \<open>
  What the loop returns on a finite climb. Let the element with the given id be found,
  and let \<open>ps\<close> be the parents climbed from it, each unlocked and not a frame, up to an
  element \<open>top\<close> where the climb stops: \<open>top\<close> has no parent that exists, or its parent
  is locked, or its parent is a frame. Then the result is \<open>null\<close> when the element
  itself or the parent of \<open>top\<close> is locked, and \<open>top\<close> otherwise.
\<close>

lemma getSelectableElement_finite_climb:
  assumes "find (\<lambda>el. el_id el = elementId) allElements = Some element"
    and "parentChain allElements element ps"
    and "\<forall>p\<in>set ps. \<not> isLockedTruthy p \<and> el_type p \<noteq> Frame"
    and "case parentOf allElements (last (element # ps)) of
           None \<Rightarrow> True
         | Some q \<Rightarrow> isLockedTruthy q \<or> el_type q = Frame"
  shows "getSelectableElement elementId allElements =
           Some (if isLockedTruthy element then None
                 else case parentOf allElements (last (element # ps)) of
                        None \<Rightarrow> Some (last (element # ps))
                      | Some q \<Rightarrow> if isLockedTruthy q then None
                                  else Some (last (element # ps)))"
proof (cases "isLockedTruthy element")
  case True
  then show ?thesis using assms(1) by (simp add: getSelectableElement_def)
next
  case False
  have "getSelectableElement elementId allElements = climb allElements element"
    using False assms(1) by (simp add: getSelectableElement_def)
  also have "\<dots> = climb allElements (last (element # ps))"
    by (rule climb_chain[OF assms(2,3)])
  also have "\<dots> = Some (case parentOf allElements (last (element # ps)) of
                        None \<Rightarrow> Some (last (element # ps))
                      | Some q \<Rightarrow> if isLockedTruthy q then None
                                  else Some (last (element # ps)))"
    using assms(4) by (subst climb_unfold) (auto split: option.splits)
  finally show ?thesis using False by simp
qed

text \<open>
  C9 at a concrete scene: a locked group \<open>g\<close>, a frame \<open>f\<close> inside it and a shape \<open>s\<close>
  inside the frame. The group is an ancestor of \<open>s\<close> on its parent chain and is locked,
  and \<open>getSelectableElement\<close> returns \<open>s\<close>, not \<open>null\<close>: the loop stops at the frame
  before it tests the lock of the frame's own parent. With a group in the place of the
  frame the same call returns \<open>null\<close>.
\<close>

theorem getSelectableElement_misses_lock_above_frame:
  "parentChain
     [ (mkElement ''g'' Group 0 0 100 100) \<lparr> el_isLocked := Some True \<rparr>,
       (mkElement ''f'' Frame 0 0 50 50) \<lparr> el_parentId := Some ''g'' \<rparr>,
       (mkElement ''s'' Shape 0 0 10 10) \<lparr> el_parentId := Some ''f'' \<rparr> ]
     ((mkElement ''s'' Shape 0 0 10 10) \<lparr> el_parentId := Some ''f'' \<rparr>)
     [ (mkElement ''f'' Frame 0 0 50 50) \<lparr> el_parentId := Some ''g'' \<rparr>,
       (mkElement ''g'' Group 0 0 100 100) \<lparr> el_isLocked := Some True \<rparr> ] \<and>
   isLockedTruthy ((mkElement ''g'' Group 0 0 100 100) \<lparr> el_isLocked := Some True \<rparr>) \<and>
   getSelectableElement ''s''
     [ (mkElement ''g'' Group 0 0 100 100) \<lparr> el_isLocked := Some True \<rparr>,
       (mkElement ''f'' Frame 0 0 50 50) \<lparr> el_parentId := Some ''g'' \<rparr>,
       (mkElement ''s'' Shape 0 0 10 10) \<lparr> el_parentId := Some ''f'' \<rparr> ]
     = Some (Some ((mkElement ''s'' Shape 0 0 10 10) \<lparr> el_parentId := Some ''f'' \<rparr>)) \<and>
   getSelectableElement ''s''
     [ (mkElement ''g'' Group 0 0 100 100) \<lparr> el_isLocked := Some True \<rparr>,
       (mkElement ''f'' Group 0 0 50 50) \<lparr> el_parentId := Some ''g'' \<rparr>,
       (mkElement ''s'' Shape 0 0 10 10) \<lparr> el_parentId := Some ''f'' \<rparr> ]
     = Some None"
  by (simp add: getSelectableElement_def mkElement_def isLockedTruthy_def climb_unfold parentOf_def)

text \<open>
  On a cycle of unlocked groups the loop of \<open>getSelectableElement\<close> does not end: the
  function has no result.
\<close>

lemma getSelectableElement_cycle:
  "getSelectableElement ''a''
     [ (mkElement ''a'' Group 0 0 10 10) \<lparr> el_parentId := Some ''b'' \<rparr>,
       (mkElement ''b'' Group 0 0 10 10) \<lparr> el_parentId := Some ''a'' \<rparr> ] = None"
proof -
  let ?a = "(mkElement ''a'' Group 0 0 10 10) \<lparr> el_parentId := Some ''b'' \<rparr>"
  let ?b = "(mkElement ''b'' Group 0 0 10 10) \<lparr> el_parentId := Some ''a'' \<rparr>"
  have "\<not> (els = [?a, ?b] \<and> (cur = ?a \<or> cur = ?b))" if c: "climb els cur = Some r" for els cur r
  proof (rule climb.raw_induct[OF _ c,
          where P = "\<lambda>els cur r. \<not> (els = [?a, ?b] \<and> (cur = ?a \<or> cur = ?b))"])
    fix climb' :: "Element list \<Rightarrow> Element \<Rightarrow> Element option option"
    fix els cur r
    assume IH: "\<And>es e y. climb' es e = Some y \<Longrightarrow> \<not> (es = [?a, ?b] \<and> (e = ?a \<or> e = ?b))"
    assume body: "(case el_parentId cur of
        None \<Rightarrow> Some (Some cur)
      | Some pid \<Rightarrow>
          if pid = [] then Some (Some cur)
          else (case find (\<lambda>el. el_id el = pid) els of
                  None \<Rightarrow> Some (Some cur)
                | Some parent \<Rightarrow>
                    if isLockedTruthy parent then Some None
                    else if el_type parent = Frame then Some (Some cur)
                    else climb' els parent)) = Some r"
    show "\<not> (els = [?a, ?b] \<and> (cur = ?a \<or> cur = ?b))"
    proof
      assume h: "els = [?a, ?b] \<and> (cur = ?a \<or> cur = ?b)"
      with body have "climb' [?a, ?b] ?a = Some r \<or> climb' [?a, ?b] ?b = Some r"
        by (auto simp add: mkElement_def isLockedTruthy_def split: if_splits)
      with IH show False by blast
    qed
  qed
  then have "climb [?a, ?b] ?a = None" by (cases "climb [?a, ?b] ?a") auto
  then show ?thesis by (simp add: getSelectableElement_def mkElement_def isLockedTruthy_def)
qed

lemma rotatePoint_0: "rotatePoint c center 0 = c"
  by (simp add: rotatePoint_def)

lemma foldl_addCorner4:
  "foldl addCorner \<lparr> minX = None, minY = None, maxX = None, maxY = None \<rparr> [p1, p2, p3, p4] =
     \<lparr> minX = Some (Min (px ` set [p1, p2, p3, p4])),
       minY = Some (Min (py ` set [p1, p2, p3, p4])),
       maxX = Some (Max (px ` set [p1, p2, p3, p4])),
       maxY = Some (Max (py ` set [p1, p2, p3, p4])) \<rparr>"
  by (simp add: addCorner_def min.assoc max.assoc min.commute max.commute min.left_commute max.left_commute)

lemma foldl_addCorner_box:
  assumes "ps = [p1, p2, p3, p4]"
  shows "(case (let acc = foldl addCorner \<lparr> minX = None, minY = None, maxX = None, maxY = None \<rparr> ps
               in (minX acc, minY acc, maxX acc, maxY acc)) of
            (Some x0, Some y0, Some x1, Some y1) \<Rightarrow>
               \<lparr> rx = x0, ry = y0, rwidth = x1 - x0, rheight = y1 - y0 \<rparr>
          | _ \<Rightarrow> \<lparr> rx = 0, ry = 0, rwidth = 0, rheight = 0 \<rparr>) = boundingBoxOfPoints ps"
  unfolding assms foldl_addCorner4 boundingBoxOfPoints_def by simp

text \<open>
  C10, as the code has it. For an element that is the only one with its id and whose
  unrotated bounds \<open>B\<close> do not have both width and height zero,
  \<open>getSelectionBounds([id], elements)\<close> is the axis-aligned bounding box of the four
  corners of \<open>B\<close>, each rotated by the element's rotation (0 when unset) about the
  centre of \<open>B\<close>, for every rotation.
\<close>

theorem getSelectionBounds_single:
  assumes "filter (\<lambda>e. el_id e = elementId) allElements = [el]"
    and "rwidth (gb el (Some allElements)) \<noteq> 0 \<or> rheight (gb el (Some allElements)) \<noteq> 0"
  shows "getSelectionBounds gb [elementId] allElements =
           boundingBoxOfPoints
             (map (\<lambda>c. rotatePoint c (centerOf (gb el (Some allElements))) (rotationOr0 el))
                  (cornersOf (gb el (Some allElements))))"
proof -
  let ?B = "gb el (Some allElements)"
  let ?rot = "map (\<lambda>c. rotatePoint c (centerOf ?B) (rotationOr0 el)) (cornersOf ?B)"
  obtain p1 p2 p3 p4 where ps: "?rot = [p1, p2, p3, p4]"
    by (simp add: cornersOf_def)
  have same: "(if rotationOr0 el = 0 then cornersOf ?B else ?rot) = ?rot"
    by (simp add: rotatePoint_0)
  have sel: "filter (\<lambda>e. el_id e \<in> set [elementId]) allElements = [el]"
    using assms(1) by simp
  have "addElementCorners gb allElements \<lparr> minX = None, minY = None, maxX = None, maxY = None \<rparr> el
          = foldl addCorner \<lparr> minX = None, minY = None, maxX = None, maxY = None \<rparr> ?rot"
    using assms(2) unfolding addElementCorners_def Let_def same by auto
  then show ?thesis
    unfolding getSelectionBounds_def Let_def sel
    using foldl_addCorner_box[OF ps] by (simp add: Let_def)
qed

theorem getSelectionBounds_single_witness:
  "filter (\<lambda>e. el_id e = ''i'')
     [(mkElement ''i'' Image 0 0 20 10) \<lparr> el_rotation := Some 90 \<rparr>]
     = [(mkElement ''i'' Image 0 0 20 10) \<lparr> el_rotation := Some 90 \<rparr>] \<and>
   rwidth (getElementBounds ((mkElement ''i'' Image 0 0 20 10) \<lparr> el_rotation := Some 90 \<rparr>)
             (Some [(mkElement ''i'' Image 0 0 20 10) \<lparr> el_rotation := Some 90 \<rparr>])) = 20 \<and>
   getSelectionBounds getElementBounds [''i'']
     [(mkElement ''i'' Image 0 0 20 10) \<lparr> el_rotation := Some 90 \<rparr>]
     = \<lparr> rx = 5, ry = -5, rwidth = 10, rheight = 20 \<rparr>"
  using getSelectionBounds_single
    [of "''i''" "[(mkElement ''i'' Image 0 0 20 10) \<lparr> el_rotation := Some 90 \<rparr>]"
        "(mkElement ''i'' Image 0 0 20 10) \<lparr> el_rotation := Some 90 \<rparr>" getElementBounds]
  by (simp add: mkElement_def getElementBounds_def boundingBoxOfPoints_def cornersOf_def
        centerOf_def rotationOr0_def rotatePoint_def)

text \<open>
  C10 as stated fails for an element of zero width and height, which
  \<open>getSelectionBounds\<close> skips: for such a shape at (5, 5) the result is the zero
  rectangle at the origin, and the bounding box of its corners is the zero rectangle at
  (5, 5).
\<close>

theorem getSelectionBounds_degenerate_counterexample:
  "getSelectionBounds getElementBounds [''d''] [mkElement ''d'' Shape 5 5 0 0]
     = \<lparr> rx = 0, ry = 0, rwidth = 0, rheight = 0 \<rparr> \<and>
   boundingBoxOfPoints
     (map (\<lambda>c. rotatePoint c
                 (centerOf (getElementBounds (mkElement ''d'' Shape 5 5 0 0)
                              (Some [mkElement ''d'' Shape 5 5 0 0])))
                 (rotationOr0 (mkElement ''d'' Shape 5 5 0 0)))
          (cornersOf (getElementBounds (mkElement ''d'' Shape 5 5 0 0)
                        (Some [mkElement ''d'' Shape 5 5 0 0]))))
     = \<lparr> rx = 5, ry = 5, rwidth = 0, rheight = 0 \<rparr>"
  by (simp add: getSelectionBounds_def addElementCorners_def mkElement_def getElementBounds_def
        boundingBoxOfPoints_def cornersOf_def centerOf_def rotationOr0_def rotatePoint_def)

section \<open>Properties of the interaction engine\<close>

text \<open>
  C1 at a concrete scene: frame \<open>A\<close> is 100 by 10 (area 1000), frame \<open>B\<close> is 50 by 50
  (area 2500), and the shape \<open>s\<close> lies inside both. The updater of a drag release run
  with \<open>s\<close> among the moving ids, the release of a drawing gesture for \<open>s\<close>, and
  \<open>addElementsWithParenting\<close> of \<open>s\<close> all give it the parent \<open>B\<close>, the narrower
  frame, not the frame \<open>A\<close> of smaller area.
\<close>

theorem frame_parenting_prefers_narrow_frame:
  "dragReleaseUpdater getElementBounds [''s'']
     [mkElement ''A'' Frame 0 0 100 10, mkElement ''B'' Frame 0 0 50 50,
      mkElement ''s'' Shape 1 1 5 5]
     = [mkElement ''A'' Frame 0 0 100 10, mkElement ''B'' Frame 0 0 50 50,
        (mkElement ''s'' Shape 1 1 5 5) \<lparr> el_parentId := Some ''B'' \<rparr>] \<and>
   commitAndParentUpdater getElementBounds ''s''
     [mkElement ''A'' Frame 0 0 100 10, mkElement ''B'' Frame 0 0 50 50,
      mkElement ''s'' Shape 1 1 5 5]
     = [mkElement ''A'' Frame 0 0 100 10, mkElement ''B'' Frame 0 0 50 50,
        (mkElement ''s'' Shape 1 1 5 5) \<lparr> el_parentId := Some ''B'' \<rparr>] \<and>
   addElementsWithParentingUpdater getElementBounds [mkElement ''s'' Shape 1 1 5 5]
     [mkElement ''A'' Frame 0 0 100 10, mkElement ''B'' Frame 0 0 50 50]
     = [mkElement ''A'' Frame 0 0 100 10, mkElement ''B'' Frame 0 0 50 50,
        (mkElement ''s'' Shape 1 1 5 5) \<lparr> el_parentId := Some ''B'' \<rparr>] \<and>
   frameContains (getElementBounds (mkElement ''s'' Shape 1 1 5 5) None)
     (mkElement ''A'' Frame 0 0 100 10) \<and>
   frameContains (getElementBounds (mkElement ''s'' Shape 1 1 5 5) None)
     (mkElement ''B'' Frame 0 0 50 50) \<and>
   el_width (mkElement ''A'' Frame 0 0 100 10) * el_height (mkElement ''A'' Frame 0 0 100 10)
     < el_width (mkElement ''B'' Frame 0 0 50 50) * el_height (mkElement ''B'' Frame 0 0 50 50)"
  by (simp add: dragReleaseUpdater_def commitAndParentUpdater_def
        addElementsWithParentingUpdater_def upsert_def parentIdTruthy_def
        containingFrame_def js_sort_def frameCompare_def frameContains_def
        getElementBounds_def mkElement_def)

theorem frame_parenting_prefers_narrow_frame_witness:
  "map el_parentId
     (dragReleaseUpdater getElementBounds [''s'']
        [mkElement ''A'' Frame 0 0 100 10, mkElement ''B'' Frame 0 0 50 50,
         mkElement ''s'' Shape 1 1 5 5])
     = [None, None, Some ''B'']"
  using frame_parenting_prefers_narrow_frame by (simp add: mkElement_def)

text \<open>
  C7 at a concrete scene: a freehand path with the two points (0, 0) and (100, 0), the
  erase tool with stroke width 5 at zoom 1, and the pointer at (100, 0). The path's last
  point is at distance 0 from the pointer, inside the erase radius 5, and the pointer
  move leaves the board as it is: the path is not removed.
\<close>

theorem erase_skips_last_point:
  "hypot (100 - 100) (0 - 0) < 5 / (1::real) \<and>
   eraseMove 5 1 \<lparr> px = 100, py = 0 \<rparr>
     [(mkElement ''p'' Path 0 0 0 0) \<lparr> el_points := [\<lparr> px = 0, py = 0 \<rparr>, \<lparr> px = 100, py = 0 \<rparr>] \<rparr>]
     ((createNewBoard ''b1'' ''Board 1'')
        \<lparr> b_elements := [(mkElement ''p'' Path 0 0 0 0)
                            \<lparr> el_points := [\<lparr> px = 0, py = 0 \<rparr>, \<lparr> px = 100, py = 0 \<rparr>] \<rparr>],
          b_history := [[(mkElement ''p'' Path 0 0 0 0)
                            \<lparr> el_points := [\<lparr> px = 0, py = 0 \<rparr>, \<lparr> px = 100, py = 0 \<rparr>] \<rparr>]] \<rparr>)
     = Some ((createNewBoard ''b1'' ''Board 1'')
        \<lparr> b_elements := [(mkElement ''p'' Path 0 0 0 0)
                            \<lparr> el_points := [\<lparr> px = 0, py = 0 \<rparr>, \<lparr> px = 100, py = 0 \<rparr>] \<rparr>],
          b_history := [[(mkElement ''p'' Path 0 0 0 0)
                            \<lparr> el_points := [\<lparr> px = 0, py = 0 \<rparr>, \<lparr> px = 100, py = 0 \<rparr>] \<rparr>]] \<rparr>)"
  by (simp add: eraseMove_def eraseIdsToDelete_def pathHit_def hypot_def mkElement_def)

section \<open>Properties of the rounded arithmetic\<close>

text \<open>
  An integer below \<open>2^53\<close> in absolute value is a double: rounding leaves it as it is.
  The second equation evaluates \<open>fl\<close> on such a number without the search of its
  exponent.
\<close>

lemma normUp_bounds:
  "1 \<le> x \<Longrightarrow> x < 2 ^ m \<Longrightarrow> e \<le> normUp x e \<and> normUp x e < e + int m"
proof (induction x e arbitrary: m rule: normUp.induct)
  case (1 x e)
  show ?case
  proof (cases "2 \<le> x")
    case True
    from True "1.prems"(2) have "m \<noteq> 0" by (cases m) auto
    then obtain m' where m: "m = Suc m'" by (cases m) auto
    from "1.prems"(2) have "x / 2 < 2 ^ m'" by (simp add: m)
    moreover from True have "1 \<le> x / 2" by simp
    ultimately have "e + 1 \<le> normUp (x / 2) (e + 1) \<and> normUp (x / 2) (e + 1) < e + 1 + int m'"
      using "1.IH"[OF True] by blast
    then show ?thesis using True by (subst normUp.simps) (simp add: m)
  next
    case False
    from "1.prems" have "m \<noteq> 0" by (cases m) auto
    then show ?thesis using False by (subst normUp.simps) simp
  qed
qed

lemma roundTiesEven_of_int: "roundTiesEven (of_int n) = n"
  by (simp add: roundTiesEven_def)

lemma fl_of_int:
  assumes "\<bar>n\<bar> < 2 ^ 53"
  shows "fl (of_int n) = of_int n"
proof (cases "n = 0")
  case True
  then show ?thesis by (simp add: fl_def)
next
  case False
  let ?x = "\<bar>of_int n :: real\<bar>"
  let ?k = "exponentOf ?x"
  from False have x1: "1 \<le> ?x" by linarith
  from assms have x2: "?x < 2 ^ 53"
    by (metis of_int_abs of_int_less_iff of_int_numeral of_int_power)
  from normUp_bounds[OF x1 x2, of 0] x1 have k: "0 \<le> ?k" "?k \<le> 52"
    by (simp_all add: exponentOf_def)
  define j where "j = nat (52 - ?k)"
  have u: "pow2 (?k - 52) = 1 / 2 ^ j"
    using k by (auto simp add: pow2_def j_def)
  have q: "of_int n / (1 / 2 ^ j) = (of_int (n * 2 ^ j) :: real)" by simp
  have "fl (of_int n) = of_int (roundTiesEven (of_int n / (1 / 2 ^ j))) * (1 / 2 ^ j)"
    using False by (simp add: fl_def Let_def u)
  also have "\<dots> = of_int (n * 2 ^ j) * (1 / 2 ^ j)"
    unfolding q roundTiesEven_of_int ..
  also have "\<dots> = of_int n" by simp
  finally show ?thesis .
qed

lemma fl_code [code]:
  "fl x = (if of_int \<lfloor>x\<rfloor> = x \<and> \<bar>x\<bar> < 9007199254740992 then x
           else if x = 0 then 0
           else let u = pow2 (exponentOf \<bar>x\<bar> - 52)
                in of_int (roundTiesEven (x / u)) * u)"
proof (cases "of_int \<lfloor>x\<rfloor> = x \<and> \<bar>x\<bar> < 9007199254740992")
  case True
  then have "real_of_int \<bar>\<lfloor>x\<rfloor>\<bar> < 9007199254740992"
    by (metis of_int_abs)
  then have "\<bar>\<lfloor>x\<rfloor>\<bar> < 9007199254740992" by linarith
  then have a: "\<bar>\<lfloor>x\<rfloor>\<bar> < 2 ^ 53" by simp
  from fl_of_int[OF a] True show ?thesis by simp
next
  case False
  then show ?thesis by (auto simp add: fl_def)
qed

section \<open>Properties of dragging\<close>








lemma dragReleaseUpdater_positions:
  "map positionOf (dragReleaseUpdater gb ids els) = map positionOf els"
  by (simp add: dragReleaseUpdater_def Let_def positionOf_def)
















section \<open>Properties of resizing\<close>















end
